theory Spec2Isabelle
  imports Complex_Main
begin

section \<open>Numbers and strings\<close>

text \<open>
  A JavaScript \<open>number\<close> is read as a real number: arithmetic is exact, and the rounding
  of IEEE-754 doubles as well as the values \<open>NaN\<close> and \<open>\<plusminus>Infinity\<close> are outside this
  development. The one division of the planner whose divisor can be zero
  (\<open>keyPointsTotalDuration / aiSummary.keyPoints.length\<close>) never throws in JavaScript;
  its quotient is read only by the \<open>forEach\<close> callback, which does not run for an empty
  list of key points.

  \<open>xs[i]\<close> on a JavaScript array is \<open>undefined\<close> out of range, never an exception.
\<close>

definition js_index :: "'a list \<Rightarrow> nat \<Rightarrow> 'a option" where
  "js_index xs i = (if i < length xs then Some (xs ! i) else None)"

text \<open>A natural number in decimal, as a template literal prints it.\<close>

definition digit :: "nat \<Rightarrow> char" where
  "digit d = ''0123456789'' ! d"

fun decimal :: "nat \<Rightarrow> string" where
  "decimal n = (if 10 \<le> n then decimal (n div 10) @ [digit (n mod 10)] else [digit n])"

section \<open>Data model (videoGenerationService.ts)\<close>

text \<open>
  The interfaces of the source, field by field. A field name that two interfaces share,
  or that is reserved (\<open>type\<close>, \<open>text\<close>, \<open>id\<close>), carries a prefix: \<open>seg_type\<close>,
  \<open>anim_duration\<close>, \<open>trans_duration\<close>, \<open>el_content\<close>, \<open>pos_x\<close>.
\<close>

datatype segment_type = Intro | Keypoint | Highlight | Conclusion

datatype element_type = Text | Image | Chart | Progress | HighlightElement | Overlay

datatype animation_type = Typewriter | FadeIn | SlideIn | ScaleIn | Glitch | Wave

datatype transition_type = Crossfade | Slide | Zoom | Wipe | Morph | Particle

datatype direction = Left | Right | Up | Down | Center

record TextAnimation =
  anim_type :: animation_type
  anim_duration :: real
  anim_delay :: real
  anim_stagger :: "real option"

record TransitionEffect =
  trans_type :: transition_type
  trans_duration :: real
  direction :: "direction option"
  easing :: string

record Position =
  pos_x :: real
  pos_y :: real
  pos_width :: real
  pos_height :: real

record ElementStyle =
  font :: "string option"
  fillStyle :: "string option"
  strokeStyle :: "string option"
  lineWidth :: "real option"
  textAlign :: "string option"

text \<open>
  \<open>VisualElement.content\<close> has type \<open>any\<close>; the record keeps the three properties that
  the renderer reads (\<open>title\<close>, \<open>content\<close>, \<open>percentage\<close>) and leaves out the display
  strings it never reads (\<open>subtitle\<close>, \<open>badge\<close>, \<open>topic\<close>, \<open>cta\<close>, \<open>current\<close>, \<open>total\<close>,
  \<open>timeRemaining\<close>).
\<close>

record ElementContent =
  content_title :: "string option"
  content_content :: "string option"
  percentage :: "real option"

record VisualElement =
  el_type :: element_type
  el_content :: ElementContent
  el_animation :: TextAnimation
  el_position :: Position
  el_style :: "ElementStyle option"

record SegmentContent =
  seg_text :: string
  voiceText :: string
  visualElements :: "VisualElement list"
  originalVideoFrame :: "string option"
  transitions :: "TransitionEffect list"

record VideoSegment =
  startTime :: real
  endTime :: real
  seg_type :: segment_type
  content :: SegmentContent

text \<open>
  Modelled from the spec: the interfaces \<open>YouTubeVideoData\<close> and \<open>VideoSummaryData\<close>
  are declared in \<open>youtubeService\<close>, which is not among the sources. The fields
  are those of the video descriptor and of the summary result of the specification,
  under the names the sources use for them (the sample properties of the Remotion root
  list all of them).
\<close>

datatype sentiment = Positive | Neutral | Negative

datatype difficulty = Beginner | Intermediate | Advanced

record YouTubeVideoData =
  video_id :: string
  title :: string
  description :: string
  duration :: real
  channelTitle :: string
  thumbnail :: string
  publishedAt :: string
  viewCount :: real
  tags :: "string list"

record VideoSummaryData =
  summary :: string
  keyPoints :: "string list"
  mainTopics :: "string list"
  sentiment :: sentiment
  difficulty :: difficulty

section \<open>Segment planner: \<open>createTimedVideoSegments\<close>\<close>

text \<open>\<open>extractOriginalVideoFrames\<close>: the thumbnail and eight thumbnail variations.\<close>

definition extractOriginalVideoFrames :: "YouTubeVideoData \<Rightarrow> string list" where
  "extractOriginalVideoFrames videoData =
     thumbnail videoData #
     map (\<lambda>name. ''https://img.youtube.com/vi/'' @ video_id videoData @ ''/'' @ name)
       [''maxresdefault.jpg'', ''hqdefault.jpg'', ''mqdefault.jpg'', ''sddefault.jpg'',
        ''0.jpg'', ''1.jpg'', ''2.jpg'', ''3.jpg'']"

definition introDuration :: "real \<Rightarrow> real" where
  "introDuration totalDuration = min 8 (totalDuration * 0.15)"

definition conclusionDuration :: "real \<Rightarrow> real" where
  "conclusionDuration totalDuration = min 8 (totalDuration * 0.15)"

definition keyPointsTotalDuration :: "real \<Rightarrow> real" where
  "keyPointsTotalDuration totalDuration =
     totalDuration - introDuration totalDuration - conclusionDuration totalDuration"

definition keyPointDuration :: "VideoSummaryData \<Rightarrow> real \<Rightarrow> real" where
  "keyPointDuration aiSummary totalDuration =
     keyPointsTotalDuration totalDuration / real (length (keyPoints aiSummary))"

text \<open>
  The first argument of the planner is the field \<open>this.originalVideoFrames\<close> of the
  service. An index into an empty array is \<open>NaN\<close> or \<open>-1\<close> and reads \<open>undefined\<close>.
\<close>

definition introSegment :: "string list \<Rightarrow> YouTubeVideoData \<Rightarrow> real \<Rightarrow> VideoSegment" where
  "introSegment originalVideoFrames videoData totalDuration =
     \<lparr> startTime = 0,
       endTime = introDuration totalDuration,
       seg_type = Intro,
       content = \<lparr>
         seg_text = title videoData,
         voiceText = ''Welcome to this AI-powered summary of '' @ [CHR 0x22] @ title videoData
                       @ [CHR 0x22] @ '' by '' @ channelTitle videoData @ ''.'',
         visualElements = [
           \<lparr> el_type = Text,
             el_content = \<lparr> content_title = Some (title videoData), content_content = None,
                             percentage = None \<rparr>,
             el_animation = \<lparr> anim_type = SlideIn, anim_duration = 2, anim_delay = 0.5,
                            anim_stagger = None \<rparr>,
             el_position = \<lparr> pos_x = 10, pos_y = 20, pos_width = 80, pos_height = 60 \<rparr>,
             el_style = Some \<lparr> font = Some ''bold 64px Inter, sans-serif'',
                             fillStyle = Some ''#ffffff'', strokeStyle = Some ''#000000'',
                             lineWidth = Some 2, textAlign = Some ''left'' \<rparr> \<rparr>],
         originalVideoFrame = js_index originalVideoFrames 0,
         transitions = [\<lparr> trans_type = Crossfade, trans_duration = 1.5, direction = None,
                           easing = ''easeInOut'' \<rparr>] \<rparr> \<rparr>"

text \<open>The callback of \<open>aiSummary.keyPoints.forEach((point, index) => ...)\<close>.\<close>

definition keyPointSegment ::
  "string list \<Rightarrow> VideoSummaryData \<Rightarrow> real \<Rightarrow> nat \<Rightarrow> string \<Rightarrow> VideoSegment" where
  "keyPointSegment originalVideoFrames aiSummary totalDuration index point =
     (let kpStart = introDuration totalDuration
                      + real index * keyPointDuration aiSummary totalDuration;
          kpEnd = kpStart + keyPointDuration aiSummary totalDuration
      in \<lparr> startTime = kpStart,
           endTime = kpEnd,
           seg_type = Keypoint,
           content = \<lparr>
             seg_text = point,
             voiceText = point,
             visualElements = [
               \<lparr> el_type = Text,
                 el_content = \<lparr> content_title = Some (''Key Insight '' @ decimal (index + 1)),
                                 content_content = Some point, percentage = None \<rparr>,
                 el_animation = \<lparr> anim_type = (if index mod 3 = 0 then Typewriter
                                              else if index mod 3 = 1 then Wave else ScaleIn),
                                anim_duration = 1.5, anim_delay = 0.5, anim_stagger = Some 0.05 \<rparr>,
                 el_position = \<lparr> pos_x = 5, pos_y = 25, pos_width = 90, pos_height = 50 \<rparr>,
                 el_style = Some \<lparr> font = Some ''bold 48px Inter, sans-serif'',
                                 fillStyle = Some ''#ffffff'', strokeStyle = Some ''#000000'',
                                 lineWidth = Some 3, textAlign = Some ''left'' \<rparr> \<rparr>,
               \<lparr> el_type = Progress,
                 el_content = \<lparr> content_title = None, content_content = None,
                                 percentage = Some ((real (index + 1)
                                   / real (length (keyPoints aiSummary))) * 100) \<rparr>,
                 el_animation = \<lparr> anim_type = SlideIn, anim_duration = 0.8, anim_delay = 0.3,
                                anim_stagger = None \<rparr>,
                 el_position = \<lparr> pos_x = 10, pos_y = 80, pos_width = 80, pos_height = 6 \<rparr>,
                 el_style = None \<rparr>],
             originalVideoFrame =
               (if originalVideoFrames = [] then None
                else js_index originalVideoFrames ((index + 1) mod length originalVideoFrames)),
             transitions = [
               \<lparr> trans_type = (if index mod 2 = 0 then Slide else Zoom),
                 trans_duration = 1,
                 direction = Some (if index mod 4 = 0 then Left else if index mod 4 = 1 then Right
                                   else if index mod 4 = 2 then Up else Down),
                 easing = ''easeInOut'' \<rparr>] \<rparr> \<rparr>)"

definition conclusionSegment :: "string list \<Rightarrow> real \<Rightarrow> VideoSegment" where
  "conclusionSegment originalVideoFrames totalDuration =
     (let conclusionStart = totalDuration - conclusionDuration totalDuration
      in \<lparr> startTime = conclusionStart,
           endTime = totalDuration,
           seg_type = Conclusion,
           content = \<lparr>
             seg_text = ''Summary Complete'',
             voiceText = ''That covers the main insights. The original video goes into much more detail, so I recommend watching the full version. Thanks for watching this AI summary!'',
             visualElements = [
               \<lparr> el_type = Text,
                 el_content = \<lparr> content_title = Some ''Summary Complete!'',
                                 content_content = None, percentage = None \<rparr>,
                 el_animation = \<lparr> anim_type = Glitch, anim_duration = 2, anim_delay = 0,
                                anim_stagger = None \<rparr>,
                 el_position = \<lparr> pos_x = 10, pos_y = 25, pos_width = 80, pos_height = 50 \<rparr>,
                 el_style = Some \<lparr> font = Some ''bold 72px Inter, sans-serif'',
                                 fillStyle = Some ''#22c55e'', strokeStyle = Some ''#000000'',
                                 lineWidth = Some 3, textAlign = Some ''center'' \<rparr> \<rparr>],
             originalVideoFrame =
               (if originalVideoFrames = [] then None
                else js_index originalVideoFrames (length originalVideoFrames - 1)),
             transitions = [\<lparr> trans_type = Particle, trans_duration = 2, direction = None,
                               easing = ''easeOut'' \<rparr>] \<rparr> \<rparr>)"

definition createTimedVideoSegments ::
  "string list \<Rightarrow> YouTubeVideoData \<Rightarrow> VideoSummaryData \<Rightarrow> real \<Rightarrow> VideoSegment list" where
  "createTimedVideoSegments originalVideoFrames videoData aiSummary totalDuration =
     introSegment originalVideoFrames videoData totalDuration
     # map (\<lambda>(index, point).
              keyPointSegment originalVideoFrames aiSummary totalDuration index point)
         (enumerate 0 (keyPoints aiSummary))
     @ [conclusionSegment originalVideoFrames totalDuration]"

section \<open>Sample input (the default properties of the Remotion root)\<close>

definition sampleVideoData :: YouTubeVideoData where
  "sampleVideoData =
     \<lparr> video_id = ''sample'',
       title = ''Sample Video Title'',
       description = ''Sample description'',
       duration = 300,
       channelTitle = ''Sample Channel'',
       thumbnail = ''https://img.youtube.com/vi/dQw4w9WgXcQ/hqdefault.jpg'',
       publishedAt = ''2023-01-01T00:00:00Z'',
       viewCount = 1000000,
       tags = [''sample'', ''video''] \<rparr>"

definition sampleAiSummary :: VideoSummaryData where
  "sampleAiSummary =
     \<lparr> summary = ''This is a sample AI-generated summary of the video content.'',
       keyPoints = [''First key point from the video'', ''Second important insight'',
                    ''Third valuable takeaway'', ''Fourth essential concept'',
                    ''Fifth crucial detail''],
       mainTopics = [''Technology'', ''Education'', ''Innovation''],
       sentiment = Positive,
       difficulty = Intermediate \<rparr>"

definition sampleFrames :: "string list" where
  "sampleFrames = extractOriginalVideoFrames sampleVideoData"

definition emptySummary :: VideoSummaryData where
  "emptySummary = sampleAiSummary\<lparr> keyPoints := [] \<rparr>"

section \<open>Easing functions\<close>

text \<open>
  The table \<open>easingFunctions\<close> of \<open>AnimationService\<close>. \<open>Math.pow(x, 2)\<close> is the square
  of \<open>x\<close>; in \<open>bounce\<close> the expression \<open>n1 * (t -= c) * t + d\<close> first lowers \<open>t\<close> by \<open>c\<close>
  and then multiplies by the lowered \<open>t\<close>.
\<close>

definition easingFunctions_linear :: "real \<Rightarrow> real" where
  "easingFunctions_linear t = t"

definition easingFunctions_easeIn :: "real \<Rightarrow> real" where
  "easingFunctions_easeIn t = t * t"

definition easingFunctions_easeOut :: "real \<Rightarrow> real" where
  "easingFunctions_easeOut t = 1 - (1 - t) * (1 - t)"

definition easingFunctions_easeInOut :: "real \<Rightarrow> real" where
  "easingFunctions_easeInOut t = (if t < 0.5 then 2 * t * t else 1 - (- 2 * t + 2) ^ 2 / 2)"

definition easingFunctions_bounce :: "real \<Rightarrow> real" where
  "easingFunctions_bounce t =
     (let n1 = 7.5625; d1 = 2.75
      in if t < 1 / d1 then n1 * t * t
         else if t < 2 / d1 then (let t' = t - 1.5 / d1 in n1 * t' * t' + 0.75)
         else if t < 2.5 / d1 then (let t' = t - 2.25 / d1 in n1 * t' * t' + 0.9375)
         else (let t' = t - 2.625 / d1 in n1 * t' * t' + 0.984375))"

definition easingFunctions_elastic :: "real \<Rightarrow> real" where
  "easingFunctions_elastic t =
     (let c4 = (2 * pi) / 3
      in if t = 0 then 0 else if t = 1 then 1
         else - (2 powr (10 * t - 10)) * sin ((t * 10 - 10.75) * c4))"

text \<open>
  The lookup \<open>this.easingFunctions[name]\<close> among the six own properties of the table
  (properties inherited from \<open>Object.prototype\<close> are left out).
\<close>

definition easingFunctions :: "string \<Rightarrow> (real \<Rightarrow> real) option" where
  "easingFunctions name =
     (if name = ''linear'' then Some easingFunctions_linear
      else if name = ''easeIn'' then Some easingFunctions_easeIn
      else if name = ''easeOut'' then Some easingFunctions_easeOut
      else if name = ''easeInOut'' then Some easingFunctions_easeInOut
      else if name = ''bounce'' then Some easingFunctions_bounce
      else if name = ''elastic'' then Some easingFunctions_elastic
      else None)"

text \<open>The private method \<open>easeInOut\<close> of \<open>VideoGenerationService\<close>.\<close>

definition easeInOut :: "real \<Rightarrow> real" where
  "easeInOut t = (if t < 0.5 then 2 * t * t else 1 - (- 2 * t + 2) ^ 2 / 2)"

section \<open>The drawing surface\<close>

text \<open>
  A render function is modelled by the list of calls and property assignments it makes
  on the \<open>CanvasRenderingContext2D\<close>, in order: its draw directives. An image is known
  by its source address. A gradient object is written as the fill style it denotes.
\<close>

datatype HTMLImageElement = Img string

datatype fill_style =
    CssColor string
  | LinearGradient real real real real "(real \<times> string) list"

datatype canvas_call =
    Save
  | Restore
  | SetGlobalAlpha real
  | SetGlobalCompositeOperation string
  | SetFillStyle fill_style
  | SetStrokeStyle string
  | SetLineWidth real
  | SetFont string
  | SetTextAlign string
  | DrawImage HTMLImageElement real real real real
  | Translate real real
  | Scale real real
  | FillRect real real real real
  | FillText string real real "real option"
  | StrokeText string real real "real option"
  | BeginPath
  | Rect real real real real
  | Arc real real real real real
  | Clip
  | Fill

record Bounds =
  bounds_x :: real
  bounds_y :: real
  bounds_width :: real
  bounds_height :: real

record CanvasSize =
  canvas_width :: real
  canvas_height :: real

text \<open>
  A quotient whose divisor is a duration taken from a directive: \<open>None\<close> stands for the
  division by zero, whose JavaScript value (\<open>NaN\<close> or \<open>\<plusminus>Infinity\<close>) is not a real number.
\<close>

definition js_div :: "real \<Rightarrow> real \<Rightarrow> real option" where
  "js_div a b = (if b = 0 then None else Some (a / b))"

section \<open>Frame renderer: the background (videoGenerationService.ts)\<close>

text \<open>A string-valued property in a condition: \<open>undefined\<close> and the empty string are falsy.\<close>

definition truthy :: "string option \<Rightarrow> bool" where
  "truthy s = (case s of None \<Rightarrow> False | Some v \<Rightarrow> v \<noteq> [])"

text \<open>\<open>Array.prototype.findIndex\<close>; \<open>None\<close> stands for the result \<open>-1\<close>.\<close>

fun findIndex :: "('a \<Rightarrow> bool) \<Rightarrow> 'a list \<Rightarrow> nat option" where
  "findIndex P [] = None"
| "findIndex P (x # xs) = (if P x then Some 0 else map_option Suc (findIndex P xs))"

definition getFrameForSegment ::
  "string list \<Rightarrow> VideoSegment \<Rightarrow> HTMLImageElement list \<Rightarrow> HTMLImageElement option" where
  "getFrameForSegment originalVideoFrames segment preloadedFrames =
     (if \<not> truthy (originalVideoFrame (content segment)) \<or> preloadedFrames = [] then None
      else (case findIndex (\<lambda>url. Some url = originalVideoFrame (content segment))
                   originalVideoFrames of
              Some frameIndex \<Rightarrow>
                if frameIndex < length preloadedFrames then Some (preloadedFrames ! frameIndex)
                else Some (preloadedFrames ! 0)
            | None \<Rightarrow> Some (preloadedFrames ! 0)))"

definition createImageTransition ::
  "HTMLImageElement option \<Rightarrow> HTMLImageElement option \<Rightarrow> TransitionEffect \<Rightarrow> real \<Rightarrow> Bounds
   \<Rightarrow> canvas_call list" where
  "createImageTransition fromImage toImage transition progress bounds =
     (let easedProgress = easeInOut progress
      in case trans_type transition of
           Crossfade \<Rightarrow>
             (case fromImage of None \<Rightarrow> []
              | Some img \<Rightarrow>
                  [Save, SetGlobalAlpha (1 - easedProgress),
                   DrawImage img (bounds_x bounds) (bounds_y bounds)
                     (bounds_width bounds) (bounds_height bounds),
                   Restore])
             @ (case toImage of None \<Rightarrow> []
                | Some img \<Rightarrow>
                    [Save, SetGlobalAlpha easedProgress,
                     DrawImage img (bounds_x bounds) (bounds_y bounds)
                       (bounds_width bounds) (bounds_height bounds),
                     Restore])
         | Slide \<Rightarrow>
             (let slideDistance = bounds_width bounds
              in (case fromImage of None \<Rightarrow> []
                  | Some img \<Rightarrow>
                      [DrawImage img (bounds_x bounds - slideDistance * easedProgress)
                         (bounds_y bounds) (bounds_width bounds) (bounds_height bounds)])
                 @ (case toImage of None \<Rightarrow> []
                    | Some img \<Rightarrow>
                        [DrawImage img (bounds_x bounds + slideDistance * (1 - easedProgress))
                           (bounds_y bounds) (bounds_width bounds) (bounds_height bounds)]))
         | Zoom \<Rightarrow>
             (case fromImage of None \<Rightarrow> []
              | Some img \<Rightarrow>
                  (let scale = 1 + easedProgress * 0.2
                   in [Save,
                       Translate (bounds_x bounds + bounds_width bounds / 2)
                         (bounds_y bounds + bounds_height bounds / 2),
                       Scale scale scale,
                       Translate (- bounds_width bounds / 2) (- bounds_height bounds / 2),
                       SetGlobalAlpha (1 - easedProgress),
                       DrawImage img 0 0 (bounds_width bounds) (bounds_height bounds),
                       Restore]))
             @ (case toImage of None \<Rightarrow> []
                | Some img \<Rightarrow>
                    (let scale = 0.8 + easedProgress * 0.2
                     in [Save,
                         Translate (bounds_x bounds + bounds_width bounds / 2)
                           (bounds_y bounds + bounds_height bounds / 2),
                         Scale scale scale,
                         Translate (- bounds_width bounds / 2) (- bounds_height bounds / 2),
                         SetGlobalAlpha easedProgress,
                         DrawImage img 0 0 (bounds_width bounds) (bounds_height bounds),
                         Restore]))
         | Wipe \<Rightarrow> []
         | Morph \<Rightarrow> []
         | Particle \<Rightarrow> [])"

definition createParallaxEffect ::
  "HTMLImageElement \<Rightarrow> Bounds \<Rightarrow> real \<Rightarrow> real \<Rightarrow> canvas_call list" where
  "createParallaxEffect img bounds progress intensity =
     (let offset = sin (progress * pi * 2) * intensity * bounds_height bounds
      in [DrawImage img (bounds_x bounds) (bounds_y bounds + offset)
            (bounds_width bounds) (bounds_height bounds)])"

definition renderDynamicGradientBackground ::
  "VideoSegment \<Rightarrow> real \<Rightarrow> CanvasSize \<Rightarrow> canvas_call list" where
  "renderDynamicGradientBackground segment progress canvasSize =
     [SetFillStyle (LinearGradient 0 0 (canvas_width canvasSize) (canvas_height canvasSize)
                      [(0, ''#1e40af''), (1, ''#7c3aed'')]),
      FillRect 0 0 (canvas_width canvasSize) (canvas_height canvasSize)]"

text \<open>
  \<open>renderOriginalVideoBackground\<close>; the first argument is the field
  \<open>this.originalVideoFrames\<close>. The result is \<open>None\<close> when the transition's duration is
  zero and the quotient \<open>segmentTime / transition.duration\<close> is taken.
\<close>

definition renderOriginalVideoBackground ::
  "string list \<Rightarrow> VideoSegment \<Rightarrow> VideoSegment option \<Rightarrow> real \<Rightarrow> real
   \<Rightarrow> HTMLImageElement list \<Rightarrow> CanvasSize \<Rightarrow> canvas_call list option" where
  "renderOriginalVideoBackground originalVideoFrames segment previousSegment segmentTime
       segmentProgress preloadedFrames canvasSize =
     (let currentFrame = getFrameForSegment originalVideoFrames segment preloadedFrames;
          previousFrame =
            (case previousSegment of None \<Rightarrow> None
             | Some p \<Rightarrow> getFrameForSegment originalVideoFrames p preloadedFrames);
          bounds = \<lparr> bounds_x = 0, bounds_y = 0, bounds_width = canvas_width canvasSize,
                     bounds_height = canvas_height canvasSize \<rparr>;
          overlay = [SetFillStyle (CssColor ''rgba(0, 0, 0, 0.4)''),
                     FillRect 0 0 (canvas_width canvasSize) (canvas_height canvasSize)]
      in if segmentTime < 1 \<and> previousFrame \<noteq> None \<and> transitions (content segment) \<noteq> []
         then (let transition = hd (transitions (content segment))
               in case js_div segmentTime (trans_duration transition) of
                    None \<Rightarrow> None
                  | Some transitionProgress \<Rightarrow>
                      Some (createImageTransition previousFrame currentFrame transition
                              transitionProgress bounds @ overlay))
         else (case currentFrame of
                 Some img \<Rightarrow>
                   Some (createParallaxEffect img bounds segmentProgress 0.05 @ overlay)
               | None \<Rightarrow>
                   Some (renderDynamicGradientBackground segment segmentProgress canvasSize
                         @ overlay)))"

section \<open>Capture driver: \<open>animateOriginalContentFrames\<close>\<close>

text \<open>
  One tick of \<open>animate\<close> is recorded as the time it computes and, when a segment holds
  that time, the arguments it passes to the frame renderer. The callback re-schedules
  itself through \<open>requestAnimationFrame\<close> while \<open>currentFrame < totalFrames\<close>; the model
  recurses, and ends where the source calls \<open>onComplete\<close>.
\<close>

record RenderCall =
  rc_segment :: VideoSegment
  rc_previousSegment :: "VideoSegment option"
  rc_segmentTime :: real
  rc_segmentProgress :: real

definition fps :: real where
  "fps = 30"

function animate ::
  "real \<Rightarrow> VideoSegment list \<Rightarrow> nat \<Rightarrow> VideoSegment option \<Rightarrow> (real \<times> RenderCall option) list" where
  "animate totalFrames segments currentFrame previousSegment =
     (let currentTime = real currentFrame / fps;
          currentSegment = find (\<lambda>s. startTime s \<le> currentTime \<and> currentTime < endTime s) segments;
          segmentTime = (case currentSegment of Some s \<Rightarrow> currentTime - startTime s | None \<Rightarrow> 0);
          segmentProgress =
            (case currentSegment of Some s \<Rightarrow> segmentTime / (endTime s - startTime s) | None \<Rightarrow> 0);
          call =
            (case currentSegment of
               Some s \<Rightarrow> Some \<lparr> rc_segment = s, rc_previousSegment = previousSegment,
                                 rc_segmentTime = segmentTime,
                                 rc_segmentProgress = segmentProgress \<rparr>
             | None \<Rightarrow> None);
          previousSegment' = (case currentSegment of Some s \<Rightarrow> Some s | None \<Rightarrow> previousSegment)
      in (currentTime, call)
         # (if real (currentFrame + 1) < totalFrames
            then animate totalFrames segments (currentFrame + 1) previousSegment'
            else []))"
  by pat_completeness auto
termination
  by (relation "measure (\<lambda>(totalFrames, segments, currentFrame, previousSegment).
                  nat \<lceil>totalFrames\<rceil> - currentFrame)") (simp, simp, linarith)

declare animate.simps [simp del]

text \<open>The argument is the field \<open>this.audioDuration\<close>.\<close>

definition animateOriginalContentFrames ::
  "real \<Rightarrow> VideoSegment list \<Rightarrow> (real \<times> RenderCall option) list" where
  "animateOriginalContentFrames audioDuration segments =
     (let totalFrames = audioDuration * fps in animate totalFrames segments 0 None)"

section \<open>AnimationService: text animations (animationService.ts)\<close>

text \<open>
  The ambient inputs of a render function: \<open>now\<close> is the value of \<open>Date.now()\<close>, in
  milliseconds, and \<open>random k\<close> is the result of the \<open>k\<close>-th call of \<open>Math.random()\<close>
  that the function makes. Only the functions that call them take a \<open>host\<close>.
\<close>

record host =
  now :: nat
  random :: "nat \<Rightarrow> real"










section \<open>AnimationService: image transitions\<close>

definition renderCrossfadeTransition ::
  "HTMLImageElement option \<Rightarrow> HTMLImageElement option \<Rightarrow> real \<Rightarrow> Bounds \<Rightarrow> canvas_call list" where
  "renderCrossfadeTransition fromImage toImage progress bounds =
     (case fromImage of None \<Rightarrow> []
      | Some img \<Rightarrow>
          [Save, SetGlobalAlpha (1 - progress),
           DrawImage img (bounds_x bounds) (bounds_y bounds) (bounds_width bounds)
             (bounds_height bounds),
           Restore])
     @ (case toImage of None \<Rightarrow> []
        | Some img \<Rightarrow>
            [Save, SetGlobalAlpha progress,
             DrawImage img (bounds_x bounds) (bounds_y bounds) (bounds_width bounds)
               (bounds_height bounds),
             Restore])"

definition renderSlideTransition ::
  "HTMLImageElement option \<Rightarrow> HTMLImageElement option \<Rightarrow> real \<Rightarrow> Bounds \<Rightarrow> direction
   \<Rightarrow> canvas_call list" where
  "renderSlideTransition fromImage toImage progress bounds dir =
     (let x = bounds_x bounds; y = bounds_y bounds;
          width = bounds_width bounds; height = bounds_height bounds;
          fromX = (case dir of Left \<Rightarrow> x - width * progress | Right \<Rightarrow> x + width * progress
                   | _ \<Rightarrow> x);
          toX = (case dir of Left \<Rightarrow> x + width * (1 - progress)
                 | Right \<Rightarrow> x - width * (1 - progress) | _ \<Rightarrow> x);
          fromY = (case dir of Up \<Rightarrow> y - height * progress | Down \<Rightarrow> y + height * progress
                   | _ \<Rightarrow> y);
          toY = (case dir of Up \<Rightarrow> y + height * (1 - progress)
                 | Down \<Rightarrow> y - height * (1 - progress) | _ \<Rightarrow> y)
      in (case fromImage of None \<Rightarrow> [] | Some img \<Rightarrow> [DrawImage img fromX fromY width height])
         @ (case toImage of None \<Rightarrow> [] | Some img \<Rightarrow> [DrawImage img toX toY width height]))"

definition renderZoomTransition ::
  "HTMLImageElement option \<Rightarrow> HTMLImageElement option \<Rightarrow> real \<Rightarrow> Bounds \<Rightarrow> canvas_call list" where
  "renderZoomTransition fromImage toImage progress bounds =
     (let x = bounds_x bounds; y = bounds_y bounds;
          width = bounds_width bounds; height = bounds_height bounds;
          centerX = x + width / 2;
          centerY = y + height / 2
      in (case fromImage of None \<Rightarrow> []
          | Some img \<Rightarrow>
              (let fromScale = 1 - progress * 0.5
               in [Save, SetGlobalAlpha (1 - progress), Translate centerX centerY,
                   Scale fromScale fromScale, Translate (- centerX) (- centerY),
                   DrawImage img x y width height, Restore]))
         @ (case toImage of None \<Rightarrow> []
            | Some img \<Rightarrow>
                (let toScale = 0.5 + progress * 0.5
                 in [Save, SetGlobalAlpha progress, Translate centerX centerY,
                     Scale toScale toScale, Translate (- centerX) (- centerY),
                     DrawImage img x y width height, Restore])))"

definition renderWipeTransition ::
  "HTMLImageElement option \<Rightarrow> HTMLImageElement option \<Rightarrow> real \<Rightarrow> Bounds \<Rightarrow> direction
   \<Rightarrow> canvas_call list" where
  "renderWipeTransition fromImage toImage progress bounds dir =
     (let x = bounds_x bounds; y = bounds_y bounds;
          width = bounds_width bounds; height = bounds_height bounds
      in (case fromImage of None \<Rightarrow> [] | Some img \<Rightarrow> [DrawImage img x y width height])
         @ (case toImage of None \<Rightarrow> []
            | Some img \<Rightarrow>
                [Save, BeginPath]
                @ (case dir of
                     Left \<Rightarrow> [Rect x y (width * progress) height]
                   | Right \<Rightarrow> [Rect (x + width * (1 - progress)) y (width * progress) height]
                   | Up \<Rightarrow> [Rect x y width (height * progress)]
                   | Down \<Rightarrow> [Rect x (y + height * (1 - progress)) width (height * progress)]
                   | Center \<Rightarrow>
                       (let radius = min width height * progress / 2
                        in [Arc (x + width / 2) (y + height / 2) radius 0 (pi * 2)]))
                @ [Clip, DrawImage img x y width height, Restore]))"

definition renderMorphTransition ::
  "HTMLImageElement option \<Rightarrow> HTMLImageElement option \<Rightarrow> real \<Rightarrow> Bounds \<Rightarrow> canvas_call list" where
  "renderMorphTransition fromImage toImage progress bounds =
     (case fromImage of None \<Rightarrow> []
      | Some img \<Rightarrow>
          [Save, SetGlobalAlpha (1 - progress),
           DrawImage img (bounds_x bounds) (bounds_y bounds) (bounds_width bounds)
             (bounds_height bounds),
           Restore])
     @ (case toImage of None \<Rightarrow> []
        | Some img \<Rightarrow>
            [Save, SetGlobalAlpha progress, SetGlobalCompositeOperation ''screen'',
             DrawImage img (bounds_x bounds) (bounds_y bounds) (bounds_width bounds)
               (bounds_height bounds),
             Restore])"

text \<open>
  The particle loop \<open>for (let i = 0; i < particleCount; i++)\<close>, over the indices still
  to visit; \<open>r\<close> counts the calls of \<open>Math.random()\<close> made so far.
\<close>

fun renderParticles :: "host \<Rightarrow> Bounds \<Rightarrow> real \<Rightarrow> real \<Rightarrow> nat \<Rightarrow> nat list \<Rightarrow> canvas_call list" where
  "renderParticles h bounds progress particleCount r [] = []"
| "renderParticles h bounds progress particleCount r (i # rest) =
     (let particleProgress = max 0 (min 1 (progress * 2 - real i / particleCount))
      in if particleProgress > 0
         then (let x = bounds_x bounds + random h r * bounds_width bounds;
                   y = bounds_y bounds + random h (r + 1) * bounds_height bounds;
                   size = 2 + random h (r + 2) * 4
               in [Save, SetGlobalAlpha (particleProgress * (1 - particleProgress) * 4),
                   SetFillStyle (CssColor ''#ffffff''), BeginPath, Arc x y size 0 (pi * 2),
                   Fill, Restore]
                  @ renderParticles h bounds progress particleCount (r + 3) rest)
         else renderParticles h bounds progress particleCount r rest)"

definition renderParticleTransition ::
  "host \<Rightarrow> HTMLImageElement option \<Rightarrow> HTMLImageElement option \<Rightarrow> real \<Rightarrow> Bounds
   \<Rightarrow> canvas_call list" where
  "renderParticleTransition h fromImage toImage progress bounds =
     (case fromImage of None \<Rightarrow> []
      | Some img \<Rightarrow>
          [Save, SetGlobalAlpha (1 - progress),
           DrawImage img (bounds_x bounds) (bounds_y bounds) (bounds_width bounds)
             (bounds_height bounds),
           Restore])
     @ (case toImage of None \<Rightarrow> []
        | Some img \<Rightarrow>
            [Save, SetGlobalAlpha progress,
             DrawImage img (bounds_x bounds) (bounds_y bounds) (bounds_width bounds)
               (bounds_height bounds),
             Restore])
     @ (let particleCount = 50
        in renderParticles h bounds progress particleCount 0 [0..<50])"

text \<open>
  The public \<open>createImageTransition\<close> of \<open>AnimationService\<close>. Calling the missing entry
  of the easing table raises a \<open>TypeError\<close>; \<open>eased || progress\<close> replaces an eased value
  of zero by \<open>progress\<close>.
\<close>

datatype js_error = TypeError

definition AnimationService_createImageTransition ::
  "host \<Rightarrow> HTMLImageElement option \<Rightarrow> HTMLImageElement option \<Rightarrow> TransitionEffect \<Rightarrow> real
   \<Rightarrow> Bounds \<Rightarrow> js_error + canvas_call list" where
  "AnimationService_createImageTransition h fromImage toImage transition progress bounds =
     (case easingFunctions (easing transition) of
        None \<Rightarrow> Inl TypeError
      | Some f \<Rightarrow>
          (let easedProgress = (if f progress = 0 then progress else f progress);
               dir = (case direction transition of None \<Rightarrow> Left | Some d \<Rightarrow> d)
           in Inr (case trans_type transition of
                     Crossfade \<Rightarrow> renderCrossfadeTransition fromImage toImage easedProgress bounds
                   | Slide \<Rightarrow> renderSlideTransition fromImage toImage easedProgress bounds dir
                   | Zoom \<Rightarrow> renderZoomTransition fromImage toImage easedProgress bounds
                   | Wipe \<Rightarrow> renderWipeTransition fromImage toImage easedProgress bounds dir
                   | Morph \<Rightarrow> renderMorphTransition fromImage toImage easedProgress bounds
                   | Particle \<Rightarrow>
                       renderParticleTransition h fromImage toImage easedProgress bounds)))"

section \<open>Sample drawing inputs\<close>

text \<open>The nine frames of the sample video, all loaded, on the 1920 by 1080 canvas.\<close>

definition samplePreloadedFrames :: "HTMLImageElement list" where
  "samplePreloadedFrames = map Img sampleFrames"

definition sampleCanvasSize :: CanvasSize where
  "sampleCanvasSize = \<lparr> canvas_width = 1920, canvas_height = 1080 \<rparr>"

definition sampleBounds :: Bounds where
  "sampleBounds = \<lparr> bounds_x = 0, bounds_y = 0, bounds_width = 1920, bounds_height = 1080 \<rparr>"

definition sampleZoom :: TransitionEffect where
  "sampleZoom = \<lparr> trans_type = Zoom, trans_duration = 1, direction = Some Right,
                   easing = ''linear'' \<rparr>"

definition sampleCrossfade :: TransitionEffect where
  "sampleCrossfade = \<lparr> trans_type = Crossfade, trans_duration = 1.5, direction = None,
                        easing = ''easeInOut'' \<rparr>"





definition sampleHost :: "nat \<Rightarrow> host" where
  "sampleHost ms = \<lparr> now = ms, random = (\<lambda>k. 0.5) \<rparr>"


section \<open>Properties of the segment planner\<close>

lemma length_createTimedVideoSegments:
  "length (createTimedVideoSegments fr vd s T) = length (keyPoints s) + 2"
  by (simp add: createTimedVideoSegments_def)

lemma nth_intro: "createTimedVideoSegments fr vd s T ! 0 = introSegment fr vd T"
  by (simp add: createTimedVideoSegments_def)

lemma nth_keyPoint:
  assumes "i < length (keyPoints s)"
  shows "createTimedVideoSegments fr vd s T ! Suc i = keyPointSegment fr s T i (keyPoints s ! i)"
  using assms by (simp add: createTimedVideoSegments_def nth_append nth_enumerate_eq)

lemma nth_conclusion:
  "createTimedVideoSegments fr vd s T ! Suc (length (keyPoints s)) = conclusionSegment fr T"
  by (simp add: createTimedVideoSegments_def nth_append)

lemma last_conclusion: "last (createTimedVideoSegments fr vd s T) = conclusionSegment fr T"
  by (simp add: createTimedVideoSegments_def)

lemma intro_fields: "startTime (introSegment fr vd T) = 0" "endTime (introSegment fr vd T) = introDuration T"
  "seg_type (introSegment fr vd T) = Intro"
  by (simp_all add: introSegment_def)

lemma conclusion_fields: "startTime (conclusionSegment fr T) = T - conclusionDuration T" "endTime (conclusionSegment fr T) = T"
  "seg_type (conclusionSegment fr T) = Conclusion"
  by (simp_all add: conclusionSegment_def Let_def)

lemma keyPoint_fields: 
  "startTime (keyPointSegment fr s T i p) = introDuration T + real i * keyPointDuration s T" 
  "endTime (keyPointSegment fr s T i p) = introDuration T + real i * keyPointDuration s T + keyPointDuration s T"
  "seg_type (keyPointSegment fr s T i p) = Keypoint"
  "seg_text (content (keyPointSegment fr s T i p)) = p"
  by (simp_all add: keyPointSegment_def Let_def)

lemma keyPoints_fill:
  assumes "keyPoints s \<noteq> []"
  shows "real (length (keyPoints s)) * keyPointDuration s T = T - introDuration T - conclusionDuration T"
  using assms by (simp add: keyPointDuration_def keyPointsTotalDuration_def)


lemma contiguous:
  assumes ne: "keyPoints s \<noteq> []" and i: "Suc i < length (createTimedVideoSegments fr vd s T)"
  shows "endTime (createTimedVideoSegments fr vd s T ! i) = startTime (createTimedVideoSegments fr vd s T ! Suc i)"
proof (cases i)
  case 0
  have "0 < length (keyPoints s)" using ne by simp
  then show ?thesis using 0
    by (simp add: nth_intro nth_keyPoint intro_fields keyPoint_fields)
next
  case (Suc j)
  have j: "j < length (keyPoints s)" using i Suc by (simp add: length_createTimedVideoSegments)
  show ?thesis
  proof (cases "Suc j < length (keyPoints s)")
    case True
    then show ?thesis using Suc j
      by (simp add: nth_keyPoint keyPoint_fields algebra_simps)
  next
    case False
    then have e: "Suc j = length (keyPoints s)" using j by simp
    have "endTime (createTimedVideoSegments fr vd s T ! Suc j)
          = introDuration T + real (Suc j) * keyPointDuration s T"
      using j by (simp add: nth_keyPoint keyPoint_fields algebra_simps)
    also have "\<dots> = T - conclusionDuration T"
      using keyPoints_fill[OF ne, of T] e by simp
    also have "\<dots> = startTime (createTimedVideoSegments fr vd s T ! Suc (Suc j))"
      using e nth_conclusion[of fr vd s T] by (simp add: conclusion_fields)
    finally show ?thesis using Suc by simp
  qed
qed




text \<open>
  Claim C1. For a summary with at least one key point and any total duration, the
  planner takes \<open>min(8, 0.15 * totalDuration)\<close> for the intro and for the conclusion
  and divides the rest evenly among the key points: these are the lengths of the first
  segment, of the last segment and of every key-point segment. For 60 seconds and five
  key points the values are 8, 8 and 8.8 seconds, in 7 segments that start at 0, end at
  60 and each end where the next one starts.
\<close>
theorem planner_durations:
  assumes "keyPoints s \<noteq> []"
  shows "introDuration T = min 8 (0.15 * T)
       \<and> conclusionDuration T = min 8 (0.15 * T)
       \<and> keyPointDuration s T
           = (T - introDuration T - conclusionDuration T) / real (length (keyPoints s))
       \<and> endTime (createTimedVideoSegments fr vd s T ! 0)
           - startTime (createTimedVideoSegments fr vd s T ! 0) = introDuration T
       \<and> endTime (last (createTimedVideoSegments fr vd s T))
           - startTime (last (createTimedVideoSegments fr vd s T)) = conclusionDuration T
       \<and> (\<forall>i < length (keyPoints s).
             endTime (createTimedVideoSegments fr vd s T ! Suc i)
             - startTime (createTimedVideoSegments fr vd s T ! Suc i) = keyPointDuration s T)
       \<and> (length (keyPoints s) = 5 \<longrightarrow>
             introDuration 60 = 8 \<and> conclusionDuration 60 = 8 \<and> keyPointDuration s 60 = 8.8
           \<and> length (createTimedVideoSegments fr vd s 60) = 7
           \<and> startTime (createTimedVideoSegments fr vd s 60 ! 0) = 0
           \<and> endTime (createTimedVideoSegments fr vd s 60 ! 6) = 60
           \<and> (\<forall>i < 6. endTime (createTimedVideoSegments fr vd s 60 ! i)
                        = startTime (createTimedVideoSegments fr vd s 60 ! Suc i)))"
proof -
  have a: "introDuration T = min 8 (0.15 * T)" "conclusionDuration T = min 8 (0.15 * T)"
    by (simp_all add: introDuration_def conclusionDuration_def mult.commute)
  have b: "keyPointDuration s T
           = (T - introDuration T - conclusionDuration T) / real (length (keyPoints s))"
    by (simp add: keyPointDuration_def keyPointsTotalDuration_def)
  have c: "endTime (createTimedVideoSegments fr vd s T ! 0)
           - startTime (createTimedVideoSegments fr vd s T ! 0) = introDuration T"
    by (simp add: nth_intro intro_fields)
  have d: "endTime (last (createTimedVideoSegments fr vd s T))
           - startTime (last (createTimedVideoSegments fr vd s T)) = conclusionDuration T"
    by (simp add: last_conclusion conclusion_fields)
  have e: "\<forall>i < length (keyPoints s).
             endTime (createTimedVideoSegments fr vd s T ! Suc i)
             - startTime (createTimedVideoSegments fr vd s T ! Suc i) = keyPointDuration s T"
    by (simp add: nth_keyPoint keyPoint_fields)
  have f: "introDuration 60 = 8 \<and> conclusionDuration 60 = 8 \<and> keyPointDuration s 60 = 8.8
           \<and> length (createTimedVideoSegments fr vd s 60) = 7
           \<and> startTime (createTimedVideoSegments fr vd s 60 ! 0) = 0
           \<and> endTime (createTimedVideoSegments fr vd s 60 ! 6) = 60
           \<and> (\<forall>i < 6. endTime (createTimedVideoSegments fr vd s 60 ! i)
                        = startTime (createTimedVideoSegments fr vd s 60 ! Suc i))"
    if n: "length (keyPoints s) = 5"
  proof -
    have i: "introDuration 60 = 8" "conclusionDuration 60 = 8"
      by (simp_all add: introDuration_def conclusionDuration_def)
    have k: "keyPointDuration s 60 = 8.8"
      using n by (simp add: keyPointDuration_def keyPointsTotalDuration_def i)
    have l: "length (createTimedVideoSegments fr vd s 60) = 7"
      using n by (simp add: length_createTimedVideoSegments)
    have st: "startTime (createTimedVideoSegments fr vd s 60 ! 0) = 0"
      by (simp add: nth_intro intro_fields)
    have "createTimedVideoSegments fr vd s 60 ! Suc (length (keyPoints s)) = conclusionSegment fr 60"
      by (rule nth_conclusion)
    then have en: "endTime (createTimedVideoSegments fr vd s 60 ! 6) = 60"
      using n by (simp add: conclusion_fields eval_nat_numeral)
    have co: "\<forall>i < 6. endTime (createTimedVideoSegments fr vd s 60 ! i)
                        = startTime (createTimedVideoSegments fr vd s 60 ! Suc i)"
      using contiguous[OF assms, of _ fr vd 60] l by simp
    show ?thesis using i k l st en co by simp
  qed
  show ?thesis using a b c d e f by blast
qed

text \<open>The sample summary, with its five key points, at 60 seconds.\<close>
theorem planner_durations_witness:
  "keyPoints sampleAiSummary \<noteq> []
   \<and> length (keyPoints sampleAiSummary) = 5
   \<and> keyPointDuration sampleAiSummary 60 = 8.8
   \<and> endTime (createTimedVideoSegments sampleFrames sampleVideoData sampleAiSummary 60 ! 0) = 8
   \<and> endTime (createTimedVideoSegments sampleFrames sampleVideoData sampleAiSummary 60 ! 1)
     - startTime (createTimedVideoSegments sampleFrames sampleVideoData sampleAiSummary 60 ! 1) = 8.8
   \<and> length (createTimedVideoSegments sampleFrames sampleVideoData sampleAiSummary 60) = 7"
proof -
  have ne: "keyPoints sampleAiSummary \<noteq> []" by (simp add: sampleAiSummary_def)
  have n: "length (keyPoints sampleAiSummary) = 5" by (simp add: sampleAiSummary_def)
  note t = planner_durations[OF ne, of 60 sampleFrames sampleVideoData]
  have k: "keyPointDuration sampleAiSummary 60 = 8.8"
    and l: "length (createTimedVideoSegments sampleFrames sampleVideoData sampleAiSummary 60) = 7"
    and i: "introDuration 60 = 8"
    using t n by blast+
  have e: "endTime (createTimedVideoSegments sampleFrames sampleVideoData sampleAiSummary 60 ! 0) = 8"
    using t i by (simp add: nth_intro intro_fields)
  have "(0::nat) < length (keyPoints sampleAiSummary)" using n by simp
  with t have "endTime (createTimedVideoSegments sampleFrames sampleVideoData sampleAiSummary 60 ! Suc 0)
     - startTime (createTimedVideoSegments sampleFrames sampleVideoData sampleAiSummary 60 ! Suc 0)
     = keyPointDuration sampleAiSummary 60" by blast
  then have d: "endTime (createTimedVideoSegments sampleFrames sampleVideoData sampleAiSummary 60 ! 1)
     - startTime (createTimedVideoSegments sampleFrames sampleVideoData sampleAiSummary 60 ! 1) = 8.8"
    using k by simp
  show ?thesis using ne n k e d l by blast
qed





text \<open>
  Claim C3 as stated fails where it says that, without key points, the conclusion
  starts where the intro ends: for the sample video at 60 seconds without key points
  the intro ends at 8 and the conclusion starts at 52.
\<close>
theorem planner_no_key_points_counterexample:
  "length (createTimedVideoSegments sampleFrames sampleVideoData emptySummary 60) = 2
   \<and> seg_type (createTimedVideoSegments sampleFrames sampleVideoData emptySummary 60 ! 0) = Intro
   \<and> seg_type (createTimedVideoSegments sampleFrames sampleVideoData emptySummary 60 ! 1) = Conclusion
   \<and> endTime (createTimedVideoSegments sampleFrames sampleVideoData emptySummary 60 ! 0) = 8
   \<and> startTime (createTimedVideoSegments sampleFrames sampleVideoData emptySummary 60 ! 1) = 52
   \<and> startTime (createTimedVideoSegments sampleFrames sampleVideoData emptySummary 60 ! 1)
     \<noteq> endTime (createTimedVideoSegments sampleFrames sampleVideoData emptySummary 60 ! 0)"
  by (simp add: createTimedVideoSegments_def emptySummary_def sampleAiSummary_def
      intro_fields conclusion_fields introDuration_def conclusionDuration_def)

text \<open>
  Claim C3, as amended. For every number \<open>N\<close> of key points the planner returns
  \<open>N + 2\<close> segments. Without key points it returns the intro and the conclusion only,
  built without the quotient by the number of key points; the intro ends at
  \<open>min(8, 0.15 * totalDuration)\<close>, the conclusion starts at the total duration less that
  amount, and the two coincide only for a total duration of zero.
\<close>
theorem planner_segment_count:
  "length (createTimedVideoSegments fr vd s T) = length (keyPoints s) + 2
   \<and> (keyPoints s = [] \<longrightarrow>
        createTimedVideoSegments fr vd s T = [introSegment fr vd T, conclusionSegment fr T]
      \<and> seg_type (createTimedVideoSegments fr vd s T ! 0) = Intro
      \<and> seg_type (createTimedVideoSegments fr vd s T ! 1) = Conclusion
      \<and> endTime (createTimedVideoSegments fr vd s T ! 0) = min 8 (0.15 * T)
      \<and> startTime (createTimedVideoSegments fr vd s T ! 1) = T - min 8 (0.15 * T)
      \<and> (startTime (createTimedVideoSegments fr vd s T ! 1)
           = endTime (createTimedVideoSegments fr vd s T ! 0) \<longleftrightarrow> T = 0))"
proof -
  have "createTimedVideoSegments fr vd s T = [introSegment fr vd T, conclusionSegment fr T]"
    if "keyPoints s = []"
    using that by (simp add: createTimedVideoSegments_def)
  moreover have "T - min 8 (T * 0.15) = min 8 (T * 0.15) \<longleftrightarrow> T = 0"
    by (auto simp: min_def)
  ultimately show ?thesis
    by (simp add: length_createTimedVideoSegments intro_fields conclusion_fields
        introDuration_def conclusionDuration_def mult.commute)
qed

text \<open>The sample video without key points, at 60 seconds.\<close>
theorem planner_segment_count_witness:
  "keyPoints emptySummary = []
   \<and> length (createTimedVideoSegments sampleFrames sampleVideoData emptySummary 60) = 2
   \<and> createTimedVideoSegments sampleFrames sampleVideoData emptySummary 60
       = [introSegment sampleFrames sampleVideoData 60, conclusionSegment sampleFrames 60]
   \<and> startTime (createTimedVideoSegments sampleFrames sampleVideoData emptySummary 60 ! 1) = 52"
proof -
  have e: "keyPoints emptySummary = []" by (simp add: emptySummary_def)
  show ?thesis
    using planner_segment_count[of sampleFrames sampleVideoData emptySummary 60] e
    by (simp add: conclusion_fields conclusionDuration_def)
qed

text \<open>
  Claim C4 as stated fails: for a total duration of \<open>-10\<close> the planner returns a list
  of seven segments for the sample summary, the intro running from 0 to \<open>-1.5\<close> and the
  conclusion ending at \<open>-10\<close>. The source function has no \<open>throw\<close> and no check of
  the duration, so the model has no failure value.
\<close>
theorem planner_negative_duration_counterexample:
  "length (createTimedVideoSegments sampleFrames sampleVideoData sampleAiSummary (- 10)) = 7
   \<and> startTime (createTimedVideoSegments sampleFrames sampleVideoData sampleAiSummary (- 10) ! 0) = 0
   \<and> endTime (createTimedVideoSegments sampleFrames sampleVideoData sampleAiSummary (- 10) ! 0) = - 1.5
   \<and> endTime (last (createTimedVideoSegments sampleFrames sampleVideoData sampleAiSummary (- 10))) = - 10"
  by (simp add: length_createTimedVideoSegments nth_intro last_conclusion intro_fields
      conclusion_fields introDuration_def sampleAiSummary_def)

lemma nonpositive_segments_reversed:
  assumes T: "T \<le> 0" and i: "i < length (createTimedVideoSegments fr vd s T)"
  shows "endTime (createTimedVideoSegments fr vd s T ! i)
         \<le> startTime (createTimedVideoSegments fr vd s T ! i)"
proof -
  have m: "min 8 (T * 0.15) = 0.15 * T" using T by (simp add: min_def)
  have k: "keyPointDuration s T \<le> 0"
    using T by (simp add: keyPointDuration_def keyPointsTotalDuration_def introDuration_def
        conclusionDuration_def m divide_le_0_iff)
  show ?thesis
  proof (cases i)
    case 0
    then show ?thesis using T by (simp add: nth_intro intro_fields introDuration_def m)
  next
    case (Suc j)
    show ?thesis
    proof (cases "j < length (keyPoints s)")
      case True
      then show ?thesis using Suc k by (simp add: nth_keyPoint keyPoint_fields)
    next
      case False
      then have "j = length (keyPoints s)" using i Suc by (simp add: length_createTimedVideoSegments)
      then show ?thesis using Suc T nth_conclusion[of fr vd s T]
        by (simp add: conclusion_fields conclusionDuration_def m)
    qed
  qed
qed

text \<open>
  Claim C4, as amended. For a total duration that is zero or negative the planner raises
  no error: it returns \<open>N + 2\<close> segments, the intro from 0 to
  \<open>0.15 * totalDuration\<close>, the conclusion from \<open>0.85 * totalDuration\<close> to the total
  duration, and no segment ends after it starts.
\<close>
theorem planner_nonpositive_duration:
  assumes T: "T \<le> 0"
  shows "length (createTimedVideoSegments fr vd s T) = length (keyPoints s) + 2
       \<and> startTime (createTimedVideoSegments fr vd s T ! 0) = 0
       \<and> endTime (createTimedVideoSegments fr vd s T ! 0) = 0.15 * T
       \<and> startTime (last (createTimedVideoSegments fr vd s T)) = 0.85 * T
       \<and> endTime (last (createTimedVideoSegments fr vd s T)) = T
       \<and> (\<forall>i < length (createTimedVideoSegments fr vd s T).
             endTime (createTimedVideoSegments fr vd s T ! i)
             \<le> startTime (createTimedVideoSegments fr vd s T ! i))"
proof -
  have "endTime (createTimedVideoSegments fr vd s T ! 0) = 0.15 * T"
    using T by (simp add: nth_intro intro_fields introDuration_def min_def)
  moreover have "startTime (last (createTimedVideoSegments fr vd s T)) = 0.85 * T"
    using T by (simp add: last_conclusion conclusion_fields conclusionDuration_def min_def)
  moreover have "startTime (createTimedVideoSegments fr vd s T ! 0) = 0"
    by (simp add: nth_intro intro_fields)
  moreover have "endTime (last (createTimedVideoSegments fr vd s T)) = T"
    by (simp add: last_conclusion conclusion_fields)
  ultimately show ?thesis
    using length_createTimedVideoSegments[of fr vd s T]
      nonpositive_segments_reversed[OF T, of _ fr vd s]
    by blast
qed

text \<open>The sample summary at a total duration of zero.\<close>
theorem planner_nonpositive_duration_witness:
  "(0::real) \<le> 0
   \<and> length (createTimedVideoSegments sampleFrames sampleVideoData sampleAiSummary 0) = 7
   \<and> endTime (createTimedVideoSegments sampleFrames sampleVideoData sampleAiSummary 0 ! 0) = 0
   \<and> endTime (last (createTimedVideoSegments sampleFrames sampleVideoData sampleAiSummary 0)) = 0"
proof -
  have T: "(0::real) \<le> 0" by simp
  have n: "length (keyPoints sampleAiSummary) = 5" by (simp add: sampleAiSummary_def)
  show ?thesis
    using planner_nonpositive_duration[OF T, of sampleFrames sampleVideoData sampleAiSummary] n
    by simp
qed

section \<open>Properties of the easing functions and of the capture loop\<close>

text \<open>
  Claim C9. Each of the six easing functions \<open>linear\<close>, \<open>easeIn\<close>, \<open>easeOut\<close>,
  \<open>easeInOut\<close>, \<open>bounce\<close> and \<open>elastic\<close> maps 0 to 0 and 1 to 1.
\<close>
theorem easing_boundary_laws:
  "easingFunctions_linear 0 = 0 \<and> easingFunctions_linear 1 = 1
   \<and> easingFunctions_easeIn 0 = 0 \<and> easingFunctions_easeIn 1 = 1
   \<and> easingFunctions_easeOut 0 = 0 \<and> easingFunctions_easeOut 1 = 1
   \<and> easingFunctions_easeInOut 0 = 0 \<and> easingFunctions_easeInOut 1 = 1
   \<and> easingFunctions_bounce 0 = 0 \<and> easingFunctions_bounce 1 = 1
   \<and> easingFunctions_elastic 0 = 0 \<and> easingFunctions_elastic 1 = 1"
proof -
  have "easingFunctions_linear 0 = 0 \<and> easingFunctions_linear 1 = 1"
    by (simp add: easingFunctions_linear_def)
  moreover have "easingFunctions_easeIn 0 = 0 \<and> easingFunctions_easeIn 1 = 1"
    by (simp add: easingFunctions_easeIn_def)
  moreover have "easingFunctions_easeOut 0 = 0 \<and> easingFunctions_easeOut 1 = 1"
    by (simp add: easingFunctions_easeOut_def)
  moreover have "easingFunctions_easeInOut 0 = 0 \<and> easingFunctions_easeInOut 1 = 1"
    by (simp add: easingFunctions_easeInOut_def)
  moreover have "easingFunctions_bounce 0 = 0 \<and> easingFunctions_bounce 1 = 1"
    by (simp add: easingFunctions_bounce_def Let_def)
  moreover have "easingFunctions_elastic 0 = 0 \<and> easingFunctions_elastic 1 = 1"
    by (simp add: easingFunctions_elastic_def Let_def)
  ultimately show ?thesis by blast
qed

lemma easeInOut_zero:
  assumes "0 \<le> t" "t \<le> 1" "easeInOut t = 0"
  shows "t = 0"
proof (cases "t < 0.5")
  case True
  then show ?thesis using assms(3) by (simp add: easeInOut_def)
next
  case False
  then have "0 \<le> 2 - 2 * t" "2 - 2 * t \<le> 1" using assms(2) by simp_all
  then have "(2 - 2 * t) ^ 2 \<le> 1" by (simp add: power_le_one_iff)
  moreover have "(2 - 2 * t) ^ 2 = 2" using False assms(3) by (simp add: easeInOut_def)
  ultimately show ?thesis by simp
qed

text \<open>
  Claim C10. The private \<open>easeInOut\<close> of \<open>VideoGenerationService\<close> and the entry
  \<open>easeInOut\<close> of the easing table of \<open>AnimationService\<close> return the same value for
  every argument, the value of \<open>t < 0.5 ? 2*t*t : 1 - (-2*t + 2)^2 / 2\<close>. Hence, for a
  progress between 0 and 1, a crossfade eased by \<open>easeInOut\<close> gives the same draw
  directives through either service.
\<close>
theorem easeInOut_implementations_agree:
  "easeInOut t = easingFunctions_easeInOut t
   \<and> easingFunctions ''easeInOut'' = Some easingFunctions_easeInOut
   \<and> easeInOut t = (if t < 0.5 then 2 * t * t else 1 - (- 2 * t + 2) ^ 2 / 2)
   \<and> (0 \<le> t \<and> t \<le> 1 \<longrightarrow>
        AnimationService_createImageTransition h fromImage toImage
          (tr\<lparr> trans_type := Crossfade, easing := ''easeInOut'' \<rparr>) t bounds
        = Inr (createImageTransition fromImage toImage (tr\<lparr> trans_type := Crossfade \<rparr>) t bounds))"
proof -
  have eq: "easingFunctions_easeInOut u = easeInOut u" for u
    by (simp add: easeInOut_def easingFunctions_easeInOut_def)
  have "AnimationService_createImageTransition h fromImage toImage
          (tr\<lparr> trans_type := Crossfade, easing := ''easeInOut'' \<rparr>) t bounds
        = Inr (createImageTransition fromImage toImage (tr\<lparr> trans_type := Crossfade \<rparr>) t bounds)"
    if "0 \<le> t" "t \<le> 1"
  proof (cases "easeInOut t = 0")
    case True
    then have "t = 0" using that easeInOut_zero by blast
    then show ?thesis using True
      by (simp add: AnimationService_createImageTransition_def easingFunctions_def eq
          renderCrossfadeTransition_def createImageTransition_def Let_def)
  next
    case False
    then show ?thesis
      by (simp add: AnimationService_createImageTransition_def easingFunctions_def eq
          renderCrossfadeTransition_def createImageTransition_def Let_def)
  qed
  then show ?thesis
    by (simp add: easeInOut_def easingFunctions_easeInOut_def easingFunctions_def)
qed

text \<open>A crossfade between two images at progress 0.25, where both ease to 0.125.\<close>
theorem easeInOut_implementations_agree_witness:
  "(0::real) \<le> 0.25 \<and> (0.25::real) \<le> 1
   \<and> easeInOut 0.25 = 0.125
   \<and> easingFunctions_easeInOut 0.25 = 0.125
   \<and> AnimationService_createImageTransition (sampleHost 0) (Some (Img ''a'')) (Some (Img ''b''))
        sampleCrossfade 0.25 sampleBounds
     = Inr (createImageTransition (Some (Img ''a'')) (Some (Img ''b'')) sampleCrossfade 0.25
              sampleBounds)"
proof -
  have r: "(0::real) \<le> 0.25" "(0.25::real) \<le> 1" by simp_all
  have u: "sampleCrossfade\<lparr> trans_type := Crossfade, easing := ''easeInOut'' \<rparr> = sampleCrossfade"
    "sampleCrossfade\<lparr> trans_type := Crossfade \<rparr> = sampleCrossfade"
    by (simp_all add: sampleCrossfade_def)
  note t = easeInOut_implementations_agree[of "0.25" "sampleHost 0" "Some (Img ''a'')"
      "Some (Img ''b'')" sampleCrossfade sampleBounds]
  have v: "easeInOut 0.25 = 0.125" by (simp add: easeInOut_def power2_eq_square)
  show ?thesis using t r u v by simp
qed

lemma length_animate:
  "length (animate totalFrames segments currentFrame previousSegment)
   = max 1 (nat \<lceil>totalFrames\<rceil> - currentFrame)"
proof (induction totalFrames segments currentFrame previousSegment rule: animate.induct)
  case (1 totalFrames segments currentFrame previousSegment)
  show ?case
  proof (cases "real (currentFrame + 1) < totalFrames")
    case True
    then have lt: "Suc currentFrame < nat \<lceil>totalFrames\<rceil>" by linarith
    show ?thesis
      apply (subst animate.simps)
      using True lt "1.IH"[OF refl refl refl refl refl refl True]
      by (simp add: Let_def)
  next
    case False
    show ?thesis
      apply (subst animate.simps)
      using False
      by (simp add: Let_def, linarith)
  qed
qed


lemma find_SomeD: "find P xs = Some x \<Longrightarrow> P x \<and> x \<in> set xs"
  by (induction xs) (auto split: if_splits)

lemma animate_times:
  "k < length (animate totalFrames segments currentFrame previousSegment) \<Longrightarrow>
   fst (animate totalFrames segments currentFrame previousSegment ! k)
   = real (currentFrame + k) / fps"
proof (induction totalFrames segments currentFrame previousSegment arbitrary: k
       rule: animate.induct)
  case (1 totalFrames segments currentFrame previousSegment)
  show ?case
  proof (cases k)
    case 0
    then show ?thesis by (subst animate.simps) (simp add: Let_def)
  next
    case (Suc j)
    show ?thesis
    proof (cases "real (currentFrame + 1) < totalFrames")
      case True
      have len: "j < length (animate totalFrames segments (currentFrame + 1)
                   (case find (\<lambda>s. startTime s \<le> real currentFrame / fps
                                    \<and> real currentFrame / fps < endTime s) segments of
                      Some s \<Rightarrow> Some s | None \<Rightarrow> previousSegment))"
        using "1.prems" Suc by (simp add: length_animate)
      show ?thesis
        apply (subst animate.simps)
        using True Suc "1.IH"[OF refl refl refl refl refl refl True len]
        by (simp add: Let_def)
    next
      case False
      have "length (animate totalFrames segments currentFrame previousSegment) = 1"
        apply (subst animate.simps)
        using False by (simp add: Let_def)
      then show ?thesis using "1.prems" Suc by simp
    qed
  qed
qed

lemma animate_calls:
  "k < length (animate totalFrames segments currentFrame previousSegment) \<Longrightarrow>
   snd (animate totalFrames segments currentFrame previousSegment ! k) = Some c \<Longrightarrow>
   rc_segment c \<in> set segments
   \<and> startTime (rc_segment c) \<le> real (currentFrame + k) / fps
   \<and> real (currentFrame + k) / fps < endTime (rc_segment c)
   \<and> rc_segmentTime c = real (currentFrame + k) / fps - startTime (rc_segment c)"
proof (induction totalFrames segments currentFrame previousSegment arbitrary: k
       rule: animate.induct)
  case (1 totalFrames segments currentFrame previousSegment)
  show ?case
  proof (cases k)
    case 0
    have "snd (animate totalFrames segments currentFrame previousSegment ! 0) = Some c"
      using "1.prems"(2) 0 by simp
    then show ?thesis using 0
      apply (subst (asm) animate.simps)
      by (auto simp: Let_def split: option.splits dest: find_SomeD)
  next
    case (Suc j)
    show ?thesis
    proof (cases "real (currentFrame + 1) < totalFrames")
      case True
      have len: "j < length (animate totalFrames segments (currentFrame + 1)
                   (case find (\<lambda>s. startTime s \<le> real currentFrame / fps
                                    \<and> real currentFrame / fps < endTime s) segments of
                      Some s \<Rightarrow> Some s | None \<Rightarrow> previousSegment))"
        using "1.prems"(1) Suc by (simp add: length_animate)
      have "snd (animate totalFrames segments currentFrame previousSegment ! Suc j) = Some c"
        using "1.prems"(2) Suc by simp
      then have c: "snd (animate totalFrames segments (currentFrame + 1)
                   (case find (\<lambda>s. startTime s \<le> real currentFrame / fps
                                    \<and> real currentFrame / fps < endTime s) segments of
                      Some s \<Rightarrow> Some s | None \<Rightarrow> previousSegment) ! j) = Some c"
        apply (subst (asm) animate.simps)
        using True by (simp add: Let_def)
      show ?thesis
        using Suc "1.IH"[OF refl refl refl refl refl refl True len c]
        by simp
    next
      case False
      have "length (animate totalFrames segments currentFrame previousSegment) = 1"
        apply (subst animate.simps)
        using False by (simp add: Let_def)
      then show ?thesis using "1.prems" Suc by simp
    qed
  qed
qed

lemma planner_reversed_not_found:
  assumes T: "T \<le> 0"
  shows "g \<in> set (createTimedVideoSegments fr vd s T) \<Longrightarrow> endTime g \<le> startTime g"
  using nonpositive_segments_reversed[OF T, of _ fr vd s] by (auto simp: in_set_conv_nth)

text \<open>
  Claim C7. The frame loop is a total function: started at frame 0 it makes
  \<open>max 1 \<lceil>30 * totalDuration\<rceil>\<close> ticks, the \<open>k\<close>-th at time \<open>k / 30\<close>; when it stops
  the frame counter over 30 has reached the total duration, and it had not before any
  tick after the first. For 60 seconds it makes exactly 1800 ticks. The renderer is
  called only at times below the total duration, for a positive total duration with
  any segment list, and for any total duration with the segments planned for it.
\<close>
theorem capture_loop_terminates:
  "length (animateOriginalContentFrames T segs) = max 1 (nat \<lceil>T * 30\<rceil>)
   \<and> (\<forall>k < length (animateOriginalContentFrames T segs).
         fst (animateOriginalContentFrames T segs ! k) = real k / 30)
   \<and> T \<le> real (length (animateOriginalContentFrames T segs)) / 30
   \<and> (\<forall>k. 0 < k \<and> k < length (animateOriginalContentFrames T segs) \<longrightarrow> real k / 30 < T)
   \<and> length (animateOriginalContentFrames 60 segs) = 1800
   \<and> (0 < T \<or> segs = createTimedVideoSegments fr vd s T \<longrightarrow>
        (\<forall>k < length (animateOriginalContentFrames T segs).
           snd (animateOriginalContentFrames T segs ! k) \<noteq> None \<longrightarrow>
           fst (animateOriginalContentFrames T segs ! k) < T))"
proof -
  have len: "length (animateOriginalContentFrames T segs) = max 1 (nat \<lceil>T * 30\<rceil>)" for T
    by (simp add: animateOriginalContentFrames_def fps_def length_animate)
  have times: "fst (animateOriginalContentFrames T segs ! k) = real k / 30"
    if "k < length (animateOriginalContentFrames T segs)" for k
    using that animate_times[of k "T * fps" segs 0 None]
    by (simp add: animateOriginalContentFrames_def fps_def)
  have halt: "T \<le> real (length (animateOriginalContentFrames T segs)) / 30"
  proof -
    have "T * 30 \<le> real (nat \<lceil>T * 30\<rceil>)" by linarith
    also have "\<dots> \<le> real (max 1 (nat \<lceil>T * 30\<rceil>))" by simp
    finally show ?thesis by (simp add: len)
  qed
  have before: "real k / 30 < T"
    if "0 < k" "k < length (animateOriginalContentFrames T segs)" for k
  proof -
    have "k < nat \<lceil>T * 30\<rceil>" using that by (simp add: len max_def split: if_splits)
    then have "real k < T * 30" by linarith
    then show ?thesis by simp
  qed
  have sixty: "length (animateOriginalContentFrames 60 segs) = 1800"
    by (simp add: len)
  have rendered: "fst (animateOriginalContentFrames T segs ! k) < T"
    if d: "0 < T \<or> segs = createTimedVideoSegments fr vd s T"
      and k: "k < length (animateOriginalContentFrames T segs)"
      and r: "snd (animateOriginalContentFrames T segs ! k) \<noteq> None" for k
  proof (cases "0 < T")
    case True
    show ?thesis
    proof (cases k)
      case 0
      then show ?thesis using True times[OF k] by simp
    next
      case (Suc j)
      then show ?thesis using before[of k] k times[OF k] by simp
    qed
  next
    case False
    then have T: "T \<le> 0" and segs: "segs = createTimedVideoSegments fr vd s T"
      using d by simp_all
    obtain c where c: "snd (animateOriginalContentFrames T segs ! k) = Some c"
      using r by blast
    have "rc_segment c \<in> set segs
          \<and> startTime (rc_segment c) \<le> real (0 + k) / fps
          \<and> real (0 + k) / fps < endTime (rc_segment c)"
      using animate_calls[of k "T * fps" segs 0 None c] k c
      by (simp add: animateOriginalContentFrames_def)
    then have "rc_segment c \<in> set segs" "startTime (rc_segment c) < endTime (rc_segment c)"
      by simp_all
    then show ?thesis using planner_reversed_not_found[OF T, of "rc_segment c" fr vd s] segs
      by simp
  qed
  show ?thesis using len[of T] times halt before sixty rendered by blast
qed

lemma animate_rendered:
  "k < length (animate totalFrames segments currentFrame previousSegment) \<Longrightarrow>
   (snd (animate totalFrames segments currentFrame previousSegment ! k) = None)
   = (find (\<lambda>s. startTime s \<le> real (currentFrame + k) / fps
                \<and> real (currentFrame + k) / fps < endTime s) segments = None)"
proof (induction totalFrames segments currentFrame previousSegment arbitrary: k
       rule: animate.induct)
  case (1 totalFrames segments currentFrame previousSegment)
  show ?case
  proof (cases k)
    case 0
    then show ?thesis
      by (subst animate.simps) (simp add: Let_def split: option.splits)
  next
    case (Suc j)
    show ?thesis
    proof (cases "real (currentFrame + 1) < totalFrames")
      case True
      have len: "j < length (animate totalFrames segments (currentFrame + 1)
                   (case find (\<lambda>s. startTime s \<le> real currentFrame / fps
                                    \<and> real currentFrame / fps < endTime s) segments of
                      Some s \<Rightarrow> Some s | None \<Rightarrow> previousSegment))"
        using "1.prems"(1) Suc by (simp add: length_animate)
      show ?thesis
        apply (subst animate.simps)
        using True Suc "1.IH"[OF refl refl refl refl refl refl True len]
        by (simp add: Let_def)
    next
      case False
      have "length (animate totalFrames segments currentFrame previousSegment) = 1"
        apply (subst animate.simps)
        using False by (simp add: Let_def)
      then show ?thesis using "1.prems" Suc by simp
    qed
  qed
qed

text \<open>
  The sample plan at 60 seconds: the last of the 1800 ticks, at time \<open>1799 / 30\<close>, falls
  into the conclusion and is rendered.
\<close>
theorem capture_loop_terminates_witness:
  "(0::real) < 60
   \<and> length (animateOriginalContentFrames 60
        (createTimedVideoSegments sampleFrames sampleVideoData sampleAiSummary 60)) = 1800
   \<and> snd (animateOriginalContentFrames 60
          (createTimedVideoSegments sampleFrames sampleVideoData sampleAiSummary 60) ! 1799) \<noteq> None
   \<and> fst (animateOriginalContentFrames 60
          (createTimedVideoSegments sampleFrames sampleVideoData sampleAiSummary 60) ! 1799) < 60"
proof -
  have T: "(0::real) < 60" by simp
  note t = capture_loop_terminates[of 60
      "createTimedVideoSegments sampleFrames sampleVideoData sampleAiSummary 60"
      sampleFrames sampleVideoData sampleAiSummary]
  have l: "length (animateOriginalContentFrames 60
        (createTimedVideoSegments sampleFrames sampleVideoData sampleAiSummary 60)) = 1800"
    using t by blast
  then have k: "(1799::nat) < length (animateOriginalContentFrames 60
        (createTimedVideoSegments sampleFrames sampleVideoData sampleAiSummary 60))" by simp
  have "conclusionSegment sampleFrames 60
        \<in> set (createTimedVideoSegments sampleFrames sampleVideoData sampleAiSummary 60)"
    by (simp add: createTimedVideoSegments_def)
  moreover have "startTime (conclusionSegment sampleFrames 60) \<le> real (0 + 1799) / fps
                 \<and> real (0 + 1799) / fps < endTime (conclusionSegment sampleFrames 60)"
    by (simp add: conclusion_fields conclusionDuration_def fps_def)
  ultimately have "find (\<lambda>s. startTime s \<le> real (0 + 1799) / fps \<and> real (0 + 1799) / fps < endTime s)
                     (createTimedVideoSegments sampleFrames sampleVideoData sampleAiSummary 60) \<noteq> None"
    unfolding find_None_iff by blast
  then have r: "snd (animateOriginalContentFrames 60
          (createTimedVideoSegments sampleFrames sampleVideoData sampleAiSummary 60) ! 1799) \<noteq> None"
    using animate_rendered[of 1799 "60 * fps"
        "createTimedVideoSegments sampleFrames sampleVideoData sampleAiSummary 60" 0 None] k
    by (simp add: animateOriginalContentFrames_def)
  show ?thesis using t T l k r by blast
qed

section \<open>Properties of the renderers\<close>

lemma sample_frames:
  "getFrameForSegment sampleFrames (introSegment sampleFrames sampleVideoData 60)
     samplePreloadedFrames = Some (Img ''https://img.youtube.com/vi/dQw4w9WgXcQ/hqdefault.jpg'')"
  "getFrameForSegment sampleFrames (conclusionSegment sampleFrames 60) samplePreloadedFrames
     = Some (Img ''https://img.youtube.com/vi/sample/3.jpg'')"
  "getFrameForSegment sampleFrames
     (keyPointSegment sampleFrames sampleAiSummary 60 4 ''Fifth crucial detail'')
     samplePreloadedFrames = Some (Img ''https://img.youtube.com/vi/sample/0.jpg'')"
  by (simp_all add: getFrameForSegment_def introSegment_def conclusionSegment_def
      keyPointSegment_def sampleFrames_def samplePreloadedFrames_def
      extractOriginalVideoFrames_def sampleVideoData_def js_index_def truthy_def Let_def)

text \<open>
  Claim C6 says that the background blend is applied for the whole duration of the
  segment's transition directive. The code at inputs inside that window: 1.2 seconds
  into the intro (crossfade, 1.5 seconds) and 1.5 seconds into the conclusion (particle,
  2 seconds), with every frame loaded and a previous segment, it paints the parallax
  background, because the blend is guarded by \<open>segmentTime < 1\<close>; and 0.5 seconds into
  the conclusion it draws no image at all, because the private \<open>createImageTransition\<close>
  has no case for the particle type.
\<close>
theorem background_transition_window_failing_input:
  "trans_duration (hd (transitions (content (introSegment sampleFrames sampleVideoData 60)))) = 1.5
   \<and> renderOriginalVideoBackground sampleFrames (introSegment sampleFrames sampleVideoData 60)
       (Some (introSegment sampleFrames sampleVideoData 60)) 1.2 0.15
       samplePreloadedFrames sampleCanvasSize
     = Some (createParallaxEffect (Img ''https://img.youtube.com/vi/dQw4w9WgXcQ/hqdefault.jpg'')
               sampleBounds 0.15 0.05
             @ [SetFillStyle (CssColor ''rgba(0, 0, 0, 0.4)''), FillRect 0 0 1920 1080])
   \<and> trans_duration (hd (transitions (content (conclusionSegment sampleFrames 60)))) = 2
   \<and> renderOriginalVideoBackground sampleFrames (conclusionSegment sampleFrames 60)
       (Some (keyPointSegment sampleFrames sampleAiSummary 60 4 ''Fifth crucial detail''))
       1.5 0.1875 samplePreloadedFrames sampleCanvasSize
     = Some (createParallaxEffect (Img ''https://img.youtube.com/vi/sample/3.jpg'')
               sampleBounds 0.1875 0.05
             @ [SetFillStyle (CssColor ''rgba(0, 0, 0, 0.4)''), FillRect 0 0 1920 1080])
   \<and> renderOriginalVideoBackground sampleFrames (conclusionSegment sampleFrames 60)
       (Some (keyPointSegment sampleFrames sampleAiSummary 60 4 ''Fifth crucial detail''))
       0.5 0.0625 samplePreloadedFrames sampleCanvasSize
     = Some [SetFillStyle (CssColor ''rgba(0, 0, 0, 0.4)''), FillRect 0 0 1920 1080]"
proof -
  have a: "trans_duration (hd (transitions (content (introSegment sampleFrames sampleVideoData 60)))) = 1.5"
    by (simp add: introSegment_def)
  have b: "trans_duration (hd (transitions (content (conclusionSegment sampleFrames 60)))) = 2"
    by (simp add: conclusionSegment_def Let_def)
  have c: "renderOriginalVideoBackground sampleFrames (introSegment sampleFrames sampleVideoData 60)
       (Some (introSegment sampleFrames sampleVideoData 60)) 1.2 0.15
       samplePreloadedFrames sampleCanvasSize
     = Some (createParallaxEffect (Img ''https://img.youtube.com/vi/dQw4w9WgXcQ/hqdefault.jpg'')
               sampleBounds 0.15 0.05
             @ [SetFillStyle (CssColor ''rgba(0, 0, 0, 0.4)''), FillRect 0 0 1920 1080])"
    by (simp add: renderOriginalVideoBackground_def sample_frames Let_def sampleCanvasSize_def
        sampleBounds_def)
  have d: "renderOriginalVideoBackground sampleFrames (conclusionSegment sampleFrames 60)
       (Some (keyPointSegment sampleFrames sampleAiSummary 60 4 ''Fifth crucial detail''))
       1.5 0.1875 samplePreloadedFrames sampleCanvasSize
     = Some (createParallaxEffect (Img ''https://img.youtube.com/vi/sample/3.jpg'')
               sampleBounds 0.1875 0.05
             @ [SetFillStyle (CssColor ''rgba(0, 0, 0, 0.4)''), FillRect 0 0 1920 1080])"
    by (simp add: renderOriginalVideoBackground_def sample_frames Let_def sampleCanvasSize_def
        sampleBounds_def)
  have tr: "transitions (content (conclusionSegment sampleFrames 60))
            = [\<lparr> trans_type = Particle, trans_duration = 2, direction = None,
                  easing = ''easeOut'' \<rparr>]"
    by (simp add: conclusionSegment_def Let_def)
  have e: "renderOriginalVideoBackground sampleFrames (conclusionSegment sampleFrames 60)
       (Some (keyPointSegment sampleFrames sampleAiSummary 60 4 ''Fifth crucial detail''))
       0.5 0.0625 samplePreloadedFrames sampleCanvasSize
     = Some [SetFillStyle (CssColor ''rgba(0, 0, 0, 0.4)''), FillRect 0 0 1920 1080]"
    by (simp add: renderOriginalVideoBackground_def sample_frames tr Let_def sampleCanvasSize_def
        js_div_def createImageTransition_def)
  show ?thesis using a b c d e by blast
qed

text \<open>
  Claim C8 as stated fails for the zoom transition of \<open>AnimationService\<close>: at eased
  progress 0.5 it draws the previous image at scale 0.75 (not 1.1) and the current image
  at scale 0.75 (not 0.9).
\<close>
theorem zoom_scales_counterexample:
  "AnimationService_createImageTransition (sampleHost 0) (Some (Img ''a'')) (Some (Img ''b''))
     sampleZoom 0.5 sampleBounds
   = Inr [Save, SetGlobalAlpha 0.5, Translate 960 540, Scale 0.75 0.75,
          Translate (- 960) (- 540), DrawImage (Img ''a'') 0 0 1920 1080, Restore,
          Save, SetGlobalAlpha 0.5, Translate 960 540, Scale 0.75 0.75,
          Translate (- 960) (- 540), DrawImage (Img ''b'') 0 0 1920 1080, Restore]"
  by (simp add: AnimationService_createImageTransition_def sampleZoom_def sampleBounds_def
      easingFunctions_def easingFunctions_linear_def renderZoomTransition_def Let_def)

text \<open>
  Claim C8, as amended. The zoom transition of the frame renderer (the private
  \<open>createImageTransition\<close> of \<open>VideoGenerationService\<close>), at eased progress
  \<open>p = easeInOut progress\<close>, draws the previous image at scale \<open>1.0 + 0.2 * p\<close> with
  opacity \<open>1 - p\<close> and the current image at scale \<open>0.8 + 0.2 * p\<close> with opacity \<open>p\<close>,
  both placed on the centre of the bounds. \<open>renderZoomTransition\<close> of
  \<open>AnimationService\<close> draws them at scales \<open>1 - 0.5 * p\<close> and \<open>0.5 + 0.5 * p\<close> with the
  same opacities, scaled about the centre of the bounds.
\<close>
theorem zoom_transition_directives:
  "createImageTransition (Some a) (Some b) (tr\<lparr> trans_type := Zoom \<rparr>) progress bounds
   = [Save,
      Translate (bounds_x bounds + bounds_width bounds / 2)
        (bounds_y bounds + bounds_height bounds / 2),
      Scale (1.0 + 0.2 * easeInOut progress) (1.0 + 0.2 * easeInOut progress),
      Translate (- bounds_width bounds / 2) (- bounds_height bounds / 2),
      SetGlobalAlpha (1 - easeInOut progress),
      DrawImage a 0 0 (bounds_width bounds) (bounds_height bounds),
      Restore,
      Save,
      Translate (bounds_x bounds + bounds_width bounds / 2)
        (bounds_y bounds + bounds_height bounds / 2),
      Scale (0.8 + 0.2 * easeInOut progress) (0.8 + 0.2 * easeInOut progress),
      Translate (- bounds_width bounds / 2) (- bounds_height bounds / 2),
      SetGlobalAlpha (easeInOut progress),
      DrawImage b 0 0 (bounds_width bounds) (bounds_height bounds),
      Restore]
   \<and> renderZoomTransition (Some a) (Some b) p bounds
   = [Save, SetGlobalAlpha (1 - p),
      Translate (bounds_x bounds + bounds_width bounds / 2)
        (bounds_y bounds + bounds_height bounds / 2),
      Scale (1 - 0.5 * p) (1 - 0.5 * p),
      Translate (- (bounds_x bounds + bounds_width bounds / 2))
        (- (bounds_y bounds + bounds_height bounds / 2)),
      DrawImage a (bounds_x bounds) (bounds_y bounds) (bounds_width bounds)
        (bounds_height bounds),
      Restore,
      Save, SetGlobalAlpha p,
      Translate (bounds_x bounds + bounds_width bounds / 2)
        (bounds_y bounds + bounds_height bounds / 2),
      Scale (0.5 + 0.5 * p) (0.5 + 0.5 * p),
      Translate (- (bounds_x bounds + bounds_width bounds / 2))
        (- (bounds_y bounds + bounds_height bounds / 2)),
      DrawImage b (bounds_x bounds) (bounds_y bounds) (bounds_width bounds)
        (bounds_height bounds),
      Restore]"
  by (simp add: createImageTransition_def renderZoomTransition_def Let_def mult.commute)







end
